theory Spec2Isabelle
  imports Main "HOL-Library.AList"
begin

section \<open>Python values, exceptions and results\<close>

text \<open>
  The exceptions that \<^verbatim>\<open>powerbase/core/task/base.py\<close> raises or catches. The three
  sentinels come from \<^verbatim>\<open>powerbase.core.exceptions\<close>; \<open>Error s\<close> is any other subclass of
  \<^verbatim>\<open>Exception\<close> whose \<^verbatim>\<open>str\<close> is \<open>s\<close>; \<open>SystemExit\<close> stands for the exceptions that
  \<^verbatim>\<open>except Exception\<close> does not catch (the source's comment at line 321).
\<close>

datatype exc =
    SchedulerRestart
  | TaskInactionException
  | TaskTerminationException
  | SystemExit
  | UnboundLocalError string
  | AttributeError string
  | KeyError string
  | TypeError string
  | ValueError string
  | NotImplementedError string
  | Error string

fun is_Exception :: "exc \<Rightarrow> bool" where
  "is_Exception SystemExit = False"
| "is_Exception e = True"

text \<open>A call either returns a value or raises; the state it leaves is returned beside it.\<close>

datatype 'a result = Ok 'a | Raise exc

datatype pyval = PyNone | PyBool bool | PyInt int | PyStr string

type_synonym tid = nat
type_synonym time = int
type_synonym cb = string
type_synonym addr = nat

section \<open>Log records and observable events\<close>

text \<open>
  Modelled from the spec: the record that the task's logger (\<^verbatim>\<open>TaskAdapter\<close>, in
  \<^verbatim>\<open>powerbase.core.log\<close>, not among the sources) produces for one logging call. The spec
  gives the six fields task name, action, start, end, runtime and message; the level is the
  logging method the source calls (\<^verbatim>\<open>debug\<close>, \<^verbatim>\<open>info\<close>, \<^verbatim>\<open>exception\<close>, \<^verbatim>\<open>critical\<close>).
  A key that the \<^verbatim>\<open>extra\<close> dictionary of the call does not have is \<open>None\<close>.
\<close>

datatype level = DEBUG | INFO | ERROR | CRITICAL

record log_record =
  rec_level :: level
  rec_task_name :: "string option"
  rec_action :: "string option"
  rec_start :: "time option"
  rec_end :: "time option"
  rec_runtime :: "time option"
  rec_message :: string

text \<open>
  Everything a method does to the outside is appended to one trace, in order: a record
  handed to the logger, a callback invoked with its argument, a blocking read of the log
  queue with its \<^verbatim>\<open>block\<close> and \<^verbatim>\<open>timeout\<close> arguments.
\<close>

datatype event =
    Emit log_record
  | CallSuccess cb pyval
  | CallFailure cb exc
  | CallFinish cb "string option"
  | QueueGet bool nat

section \<open>Conditions as shared objects\<close>

text \<open>
  Modelled from the spec: the Condition tree of \<^verbatim>\<open>powerbase.core.conditions\<close> (not among
  the sources): leaves \<^verbatim>\<open>AlwaysTrue\<close> and \<^verbatim>\<open>AlwaysFalse\<close>, combinators \<^verbatim>\<open>All\<close>,
  \<^verbatim>\<open>Any\<close> and \<^verbatim>\<open>Not\<close> with short-circuit evaluation. Conditions are Python objects:
  a node lives at an address of the store and refers to its children by address, so that
  two references to one object see each other's mutations.
\<close>

datatype cond_obj =
    AlwaysTrue
  | AlwaysFalse
  | All_cond "addr list"
  | Any_cond "addr list"
  | Not_cond addr

type_synonym store = "addr \<rightharpoonup> cond_obj"

text \<open>
  What a caller may hand over as a condition: a \<^verbatim>\<open>bool\<close>, a reference to a condition
  object, a string (for the external parser), or anything else.
\<close>

datatype cond_val = CBool bool | CRef addr | CStr string | COther

text \<open>
  Modelled from the spec: \<^verbatim>\<open>bool(cond)\<close>, the evaluation of a condition. The recursion
  follows references through the store, which a mutation can make cyclic, so it runs on
  fuel: \<open>None\<close> is an evaluation that does not finish within the fuel (or meets a dangling
  reference). \<^verbatim>\<open>All\<close> stops at the first false child, \<^verbatim>\<open>Any\<close> at the first true one.
\<close>

fun evaluate :: "nat \<Rightarrow> store \<Rightarrow> addr \<Rightarrow> bool option"
  and evaluate_all :: "nat \<Rightarrow> store \<Rightarrow> addr list \<Rightarrow> bool option"
  and evaluate_any :: "nat \<Rightarrow> store \<Rightarrow> addr list \<Rightarrow> bool option" where
  "evaluate 0 h a = None"
| "evaluate (Suc n) h a =
     (case h a of
        None \<Rightarrow> None
      | Some AlwaysTrue \<Rightarrow> Some True
      | Some AlwaysFalse \<Rightarrow> Some False
      | Some (All_cond cs) \<Rightarrow> evaluate_all n h cs
      | Some (Any_cond cs) \<Rightarrow> evaluate_any n h cs
      | Some (Not_cond c) \<Rightarrow>
          (case evaluate n h c of None \<Rightarrow> None | Some b \<Rightarrow> Some (\<not> b)))"
| "evaluate_all n h [] = Some True"
| "evaluate_all n h (c # cs) =
     (case evaluate n h c of
        None \<Rightarrow> None
      | Some b \<Rightarrow> if b then evaluate_all n h cs else Some False)"
| "evaluate_any n h [] = Some False"
| "evaluate_any n h (c # cs) =
     (case evaluate n h c of
        None \<Rightarrow> None
      | Some b \<Rightarrow> if b then Some True else evaluate_any n h cs)"

text \<open>
  \<^verbatim>\<open>bool(x)\<close> for what a condition attribute may hold: a \<^verbatim>\<open>bool\<close> is itself, a condition
  object is evaluated, a string is true when not empty; nothing is known of other values.
\<close>

fun cond_bool :: "nat \<Rightarrow> store \<Rightarrow> cond_val \<Rightarrow> bool option" where
  "cond_bool fuel h (CBool b) = Some b"
| "cond_bool fuel h (CRef a) = evaluate fuel h a"
| "cond_bool fuel h (CStr s) = Some (s \<noteq> [])"
| "cond_bool fuel h COther = None"

section \<open>Tasks and the session\<close>

text \<open>
  The attributes of a \<^verbatim>\<open>Task\<close> that the modelled methods read or write. \<open>p_name\<close>,
  \<open>p_status\<close>, \<open>p_start_cond\<close>, \<open>p_end_cond\<close> and \<open>p_thread_terminate\<close> are the
  attributes \<^verbatim>\<open>_name\<close>, \<^verbatim>\<open>_status\<close>, \<^verbatim>\<open>_start_cond\<close>, \<^verbatim>\<open>_end_cond\<close> and
  \<^verbatim>\<open>_thread_terminate\<close> (is the event set). \<open>p_name\<close> and \<open>start_time\<close> are \<open>None\<close>
  while the attribute does not exist (\<^verbatim>\<open>hasattr\<close> is false); \<open>p_status\<close> and \<open>force_run\<close>
  are \<open>None\<close> when they hold Python's \<^verbatim>\<open>None\<close>; a callback is \<open>None\<close> when not given.
  \<open>default_name\<close> is what the subclass's \<^verbatim>\<open>get_default_name\<close> returns, \<open>None\<close> for the
  base class, whose method raises.
\<close>

record task =
  p_name :: "string option"
  p_status :: "string option"
  start_time :: "time option"
  p_start_cond :: cond_val
  run_cond :: cond_val
  p_end_cond :: cond_val
  disabled :: bool
  force_run :: "bool option"
  force_termination :: bool
  p_thread_terminate :: bool
  on_success :: "cb option"
  on_failure :: "cb option"
  on_finish :: "cb option"
  exception :: "exc option"
  default_name :: "string option"

text \<open>
  A registry key is what the name setter stores under: the string given, or the integer
  \<^verbatim>\<open>id(self)\<close> under instance naming.
\<close>

datatype pykey = KStr string | KInt nat

text \<open>
  The state the methods act on: the task objects by identity, the session's registry
  \<^verbatim>\<open>session.tasks\<close> (an insertion-ordered dictionary, as an association list with
  unique keys), the two configuration entries the name setter reads, the condition store
  and the trace.
\<close>

record world =
  objs :: "tid \<Rightarrow> task"
  session_tasks :: "(pykey \<times> tid) list"
  on_task_pre_exists :: string
  use_instance_naming :: bool
  heap :: store
  trace :: "event list"

definition upd_task :: "tid \<Rightarrow> (task \<Rightarrow> task) \<Rightarrow> world \<Rightarrow> world" where
  "upd_task self f w = w\<lparr>objs := (objs w)(self := f (objs w self))\<rparr>"

definition emit :: "event \<Rightarrow> world \<Rightarrow> world" where
  "emit e w = w\<lparr>trace := trace w @ [e]\<rparr>"

section \<open>The should-run check\<close>

text \<open>
  \<^verbatim>\<open>Task.__bool__\<close> (lines 295-310). \<^verbatim>\<open>if self.force_run\<close> is taken when the attribute
  holds \<^verbatim>\<open>True\<close>, not when it holds \<^verbatim>\<open>False\<close> or \<^verbatim>\<open>None\<close>.
\<close>

definition task_bool :: "nat \<Rightarrow> tid \<Rightarrow> world \<Rightarrow> bool option" where
  "task_bool fuel self w =
     (if force_run (objs w self) = Some True then Some True
      else if disabled (objs w self) then Some False
      else
        let cond = cond_bool fuel (heap w) (p_start_cond (objs w self))
        in cond)"

section \<open>The status setter and the logging methods\<close>

text \<open>
  \<^verbatim>\<open>Task._actions\<close> (line 127) and the \<^verbatim>\<open>status\<close> setter (lines 643-670). The assigned
  value is a bare action or a pair of action and message; \<open>now\<close> is what
  \<^verbatim>\<open>datetime.datetime.now()\<close> returns in the call.
\<close>

definition actions :: "string option list" where
  "actions = [Some ''run'', Some ''fail'', Some ''success'', Some ''inaction'',
              Some ''terminate'', None, Some ''crash_release'']"

datatype status_value = Bare "string option" | Tuple "string option" string

definition py_str_opt :: "string option \<Rightarrow> string" where
  "py_str_opt a = (case a of None \<Rightarrow> ''None'' | Some s \<Rightarrow> s)"

definition status_setter :: "tid \<Rightarrow> status_value \<Rightarrow> time \<Rightarrow> world \<Rightarrow> unit result \<times> world" where
  "status_setter self v now w =
     (let (action, message) = (case v of Tuple a m \<Rightarrow> (a, m) | Bare a \<Rightarrow> (a, []))
      in if action \<notin> set actions
         then (Raise (KeyError (''Invalid action: '' @ py_str_opt action)), w)
         else
           let w1 =
             (if action \<noteq> None then
                (if action = Some ''run'' then
                   emit (Emit \<lparr>rec_level = INFO, rec_task_name = p_name (objs w self),
                               rec_action = Some ''run'', rec_start = Some now,
                               rec_end = None, rec_runtime = None,
                               rec_message = message\<rparr>)
                     (upd_task self (\<lambda>t. t\<lparr>start_time := Some now\<rparr>) w)
                 else
                   let start_time = start_time (objs w self);
                       runtime = (case start_time of None \<Rightarrow> None | Some s \<Rightarrow> Some (now - s))
                   in emit (Emit \<lparr>rec_level = (if action = Some ''fail'' then ERROR else INFO),
                                  rec_task_name = p_name (objs w self),
                                  rec_action = action, rec_start = start_time,
                                  rec_end = Some now, rec_runtime = runtime,
                                  rec_message = message\<rparr>) w)
              else w)
           in (Ok (), upd_task self (\<lambda>t. t\<lparr>p_status := action\<rparr>) w1))"

text \<open>
  The logging methods (lines 602-625). \<^verbatim>\<open>self.name\<close> reads \<^verbatim>\<open>_name\<close>, which raises
  while the attribute does not exist.
\<close>

definition log_running :: "tid \<Rightarrow> time \<Rightarrow> world \<Rightarrow> unit result \<times> world" where
  "log_running self now w = status_setter self (Bare (Some ''run'')) now w"

definition log_failure :: "tid \<Rightarrow> time \<Rightarrow> world \<Rightarrow> unit result \<times> world" where
  "log_failure self now w =
     (case p_name (objs w self) of
        None \<Rightarrow> (Raise (AttributeError ''_name''), w)
      | Some name \<Rightarrow>
          status_setter self
            (Tuple (Some ''fail'') (''Task '' @ [CHR 0x27] @ name @ [CHR 0x27] @ '' failed'')) now w)"

definition log_success :: "tid \<Rightarrow> time \<Rightarrow> world \<Rightarrow> unit result \<times> world" where
  "log_success self now w = status_setter self (Bare (Some ''success'')) now w"

definition log_termination :: "tid \<Rightarrow> string option \<Rightarrow> time \<Rightarrow> world \<Rightarrow> unit result \<times> world" where
  "log_termination self reason now w =
     (let reason = (case reason of None \<Rightarrow> ''unknown reason''
                    | Some r \<Rightarrow> if r = [] then ''unknown reason'' else r)
      in case status_setter self (Tuple (Some ''terminate'') reason) now w of
           (Raise e, w1) \<Rightarrow> (Raise e, w1)
         | (Ok u, w1) \<Rightarrow>
             (Ok (), upd_task self
                       (\<lambda>t. t\<lparr>p_thread_terminate := False, force_termination := False\<rparr>) w1))"

definition log_inaction :: "tid \<Rightarrow> time \<Rightarrow> world \<Rightarrow> unit result \<times> world" where
  "log_inaction self now w = status_setter self (Bare (Some ''inaction'')) now w"

definition log_record :: "tid \<Rightarrow> log_record \<Rightarrow> world \<Rightarrow> unit result \<times> world" where
  "log_record self record w =
     (Ok (), upd_task self (\<lambda>t. t\<lparr>p_status := rec_action record\<rparr>) (emit (Emit record) w))"

section \<open>Running a task inline\<close>

text \<open>
  The callbacks (lines 491-501) are the user's functions: the model records each
  invocation with its argument in the trace and takes the callback to return.
\<close>

definition process_failure :: "tid \<Rightarrow> exc \<Rightarrow> world \<Rightarrow> unit result \<times> world" where
  "process_failure self e w =
     (case on_failure (objs w self) of
        None \<Rightarrow> (Ok (), w)
      | Some f \<Rightarrow> (Ok (), emit (CallFailure f e) w))"

definition process_success :: "tid \<Rightarrow> pyval \<Rightarrow> world \<Rightarrow> unit result \<times> world" where
  "process_success self output w =
     (case on_success (objs w self) of
        None \<Rightarrow> (Ok (), w)
      | Some f \<Rightarrow> (Ok (), emit (CallSuccess f output) w))"

definition process_finish :: "tid \<Rightarrow> string option \<Rightarrow> world \<Rightarrow> unit result \<times> world" where
  "process_finish self status w =
     (case on_finish (objs w self) of
        None \<Rightarrow> (Ok (), w)
      | Some f \<Rightarrow> (Ok (), emit (CallFinish f status) w))"

text \<open>
  The statements of the \<^verbatim>\<open>try\<close> block of \<^verbatim>\<open>run_as_main\<close> (lines 325-334) prepare the
  parameters and end with \<^verbatim>\<open>output = self.execute_action(**params)\<close>: either the block
  returns a value, which binds the local variable \<^verbatim>\<open>output\<close>, or it raises and
  \<^verbatim>\<open>output\<close> stays unbound.
\<close>

datatype outcome = Returns pyval | Raises exc

text \<open>Reading a local variable: an unbound one raises \<^verbatim>\<open>UnboundLocalError\<close>.\<close>

definition read_local :: "string \<Rightarrow> 'a option \<Rightarrow> 'a result" where
  "read_local x binding =
     (case binding of None \<Rightarrow> Raise (UnboundLocalError x) | Some v \<Rightarrow> Ok v)"

text \<open>
  The \<^verbatim>\<open>except\<close> and \<^verbatim>\<open>else\<close> clauses of \<^verbatim>\<open>run_as_main\<close> (lines 336-374), tried in the
  source's order. The result is the local variable \<^verbatim>\<open>status\<close>, how the statement
  completes (the value returned, \<^verbatim>\<open>None\<close> when control falls off the end, or the
  exception in flight), and the state. An exception raised inside a handler leaves the
  handler at once.
\<close>

definition run_handlers ::
  "tid \<Rightarrow> outcome \<Rightarrow> time \<Rightarrow> world \<Rightarrow> string option \<times> pyval result \<times> world" where
  "run_handlers self body now w =
     (let status = None;
          output = (case body of Returns v \<Rightarrow> Some v | Raises e \<Rightarrow> None)
      in case body of
           Raises e \<Rightarrow>
             if e = SchedulerRestart then
               (case log_success self now w of
                  (Raise e1, w1) \<Rightarrow> (status, Raise e1, w1)
                | (Ok u, w1) \<Rightarrow>
                    let status = Some ''succeeded''
                    in (case read_local ''output'' output of
                          Raise e2 \<Rightarrow> (status, Raise e2, w1)
                        | Ok out \<Rightarrow>
                            (case process_success self out w1 of
                               (Raise e3, w2) \<Rightarrow> (status, Raise e3, w2)
                             | (Ok u2, w2) \<Rightarrow> (status, Raise e, w2))))
             else if e = TaskInactionException then
               (case log_inaction self now w of
                  (Raise e1, w1) \<Rightarrow> (status, Raise e1, w1)
                | (Ok u, w1) \<Rightarrow> (Some ''inaction'', Ok PyNone, w1))
             else if e = TaskTerminationException then
               (case log_termination self None now w of
                  (Raise e1, w1) \<Rightarrow> (status, Raise e1, w1)
                | (Ok u, w1) \<Rightarrow> (Some ''termination'', Ok PyNone, w1))
             else if is_Exception e then
               (case log_failure self now w of
                  (Raise e1, w1) \<Rightarrow> (status, Raise e1, w1)
                | (Ok u, w1) \<Rightarrow>
                    let status = Some ''failed''
                    in (case process_failure self e w1 of
                          (Raise e2, w2) \<Rightarrow> (status, Raise e2, w2)
                        | (Ok u2, w2) \<Rightarrow>
                            (status, Raise e, upd_task self (\<lambda>t. t\<lparr>exception := Some e\<rparr>) w2)))
             else (status, Raise e, w)
         | Returns v \<Rightarrow>
             (case log_success self now w of
                (Raise e1, w1) \<Rightarrow> (status, Raise e1, w1)
              | (Ok u, w1) \<Rightarrow>
                  let status = Some ''succeeded''
                  in (case read_local ''output'' output of
                        Raise e2 \<Rightarrow> (status, Raise e2, w1)
                      | Ok out \<Rightarrow>
                          (case process_success self out w1 of
                             (Raise e3, w2) \<Rightarrow> (status, Raise e3, w2)
                           | (Ok u2, w2) \<Rightarrow> (status, Ok out, w2)))))"

text \<open>
  The \<^verbatim>\<open>finally\<close> clause (lines 376-378) runs on every way out; when it completes, the
  statement completes as it would have without it.
\<close>

definition run_finally ::
  "tid \<Rightarrow> string option \<Rightarrow> pyval result \<Rightarrow> world \<Rightarrow> pyval result \<times> world" where
  "run_finally self status res w =
     (case process_finish self status w of
        (Raise e, w1) \<Rightarrow> (Raise e, w1)
      | (Ok u, w1) \<Rightarrow> (res, upd_task self (\<lambda>t. t\<lparr>force_run := None\<rparr>) w1))"

text \<open>
  \<^verbatim>\<open>Task.run_as_main\<close> (lines 312-380). \<open>p_log_running\<close> is the argument
  \<^verbatim>\<open>_log_running\<close>; \<open>t_run\<close> and \<open>t_end\<close> are the clock readings of the two status
  assignments.
\<close>

definition run_as_main ::
  "tid \<Rightarrow> bool \<Rightarrow> outcome \<Rightarrow> time \<Rightarrow> time \<Rightarrow> world \<Rightarrow> pyval result \<times> world" where
  "run_as_main self p_log_running body t_run t_end w =
     (case (if p_log_running then log_running self t_run w else (Ok (), w)) of
        (Raise e, w1) \<Rightarrow> (Raise e, w1)
      | (Ok u, w1) \<Rightarrow>
          (case run_handlers self body t_end w1 of
             (status, res, w2) \<Rightarrow> run_finally self status res w2))"

text \<open>The statuses passed to \<^verbatim>\<open>on_finish\<close> and the messages of the fail records of a trace.\<close>

fun finish_calls :: "event list \<Rightarrow> string option list" where
  "finish_calls [] = []"
| "finish_calls (CallFinish f status # es) = status # finish_calls es"
| "finish_calls (e # es) = finish_calls es"

fun success_calls :: "event list \<Rightarrow> pyval list" where
  "success_calls [] = []"
| "success_calls (CallSuccess f out # es) = out # success_calls es"
| "success_calls (e # es) = success_calls es"

fun failure_calls :: "event list \<Rightarrow> exc list" where
  "failure_calls [] = []"
| "failure_calls (CallFailure f e # es) = e # failure_calls es"
| "failure_calls (e # es) = failure_calls es"

fun fail_messages :: "event list \<Rightarrow> string list" where
  "fail_messages [] = []"
| "fail_messages (Emit r # es) =
     (if rec_action r = Some ''fail'' then rec_message r # fail_messages es
      else fail_messages es)"
| "fail_messages (e # es) = fail_messages es"

section \<open>Proof of start for a process task\<close>

text \<open>
  What one call \<^verbatim>\<open>log_queue.get(block=True, timeout=timeout)\<close> of \<^verbatim>\<open>_lock_to_run_log\<close>
  gives: a record, or the exception \<^verbatim>\<open>Empty\<close> after the timeout; in the second case the
  source then asks \<^verbatim>\<open>self.is_alive()\<close>, and the answer of the worker's handle comes with
  the entry. The list of entries is what the environment does while the method runs.
\<close>

datatype pop = Got log_record | Empty bool

text \<open>
  Modelled from the spec: \<^verbatim>\<open>session.get_task\<close> (the session class is not among the
  sources) looks the name up in the registry; a name that is not there is a
  \<^verbatim>\<open>KeyError\<close>.
\<close>

definition get_task :: "string option \<Rightarrow> world \<Rightarrow> tid result" where
  "get_task name w =
     (case name of
        None \<Rightarrow> Raise (KeyError ''None'')
      | Some m \<Rightarrow>
          (case map_of (session_tasks w) (KStr m) of
             None \<Rightarrow> Raise (KeyError m)
           | Some i \<Rightarrow> Ok i))"

text \<open>The two records that \<^verbatim>\<open>_lock_to_run_log\<close> writes itself (lines 572 and 576).\<close>

definition crashed_in_setup :: "string \<Rightarrow> log_record" where
  "crashed_in_setup name =
     \<lparr>rec_level = CRITICAL, rec_task_name = Some name, rec_action = Some ''fail'',
      rec_start = None, rec_end = None, rec_runtime = None,
      rec_message = ''Task '' @ [CHR 0x27] @ name @ [CHR 0x27] @ '' crashed in setup''\<rparr>"

definition inserting_record :: "string option \<Rightarrow> log_record \<Rightarrow> log_record" where
  "inserting_record me record =
     \<lparr>rec_level = DEBUG, rec_task_name = me, rec_action = None,
      rec_start = None, rec_end = None, rec_runtime = None,
      rec_message = ''Inserting record for '' @ [CHR 0x27] @ py_str_opt (rec_task_name record)
                      @ [CHR 0x27] @ '' ('' @ py_str_opt (rec_action record) @ '')''\<rparr>"

text \<open>
  The loop of \<^verbatim>\<open>Task._lock_to_run_log\<close> (lines 566-580), with the local variables
  \<^verbatim>\<open>action\<close> and \<^verbatim>\<open>timeout\<close>. The loop can wait for ever; on a finite list of entries
  \<open>None\<close> is the call that is still inside the loop when the entries are used up.
\<close>

fun lock_to_run_log_loop ::
  "tid \<Rightarrow> string option \<Rightarrow> nat \<Rightarrow> pop list \<Rightarrow> world \<Rightarrow> unit result option \<times> world" where
  "lock_to_run_log_loop self action timeout [] w =
     (if action \<noteq> Some ''run'' then (None, w) else (Some (Ok ()), w))"
| "lock_to_run_log_loop self action timeout (p # ps) w =
     (if action \<noteq> Some ''run'' then
        (let w1 = emit (QueueGet True timeout) w
         in case p of
              Empty alive \<Rightarrow>
                if \<not> alive then
                  (case p_name (objs w1 self) of
                     None \<Rightarrow> (Some (Raise (AttributeError ''_name'')), w1)
                   | Some name \<Rightarrow> (Some (Ok ()), emit (Emit (crashed_in_setup name)) w1))
                else lock_to_run_log_loop self action timeout ps w1
            | Got record \<Rightarrow>
                (let w2 = emit (Emit (inserting_record (p_name (objs w1 self)) record)) w1
                 in case get_task (rec_task_name record) w2 of
                      Raise e \<Rightarrow> (Some (Raise e), w2)
                    | Ok task \<Rightarrow>
                        (case log_record task record w2 of
                           (Raise e, w3) \<Rightarrow> (Some (Raise e), w3)
                         | (Ok u, w3) \<Rightarrow>
                             lock_to_run_log_loop self (rec_action record) timeout ps w3)))
      else (Some (Ok ()), w))"




section \<open>The name setter\<close>

text \<open>
  \<^verbatim>\<open>str(i)\<close> for a natural number: its decimal digits.
\<close>

definition digit :: "nat \<Rightarrow> char" where
  "digit d = ''0123456789'' ! d"

fun str_nat :: "nat \<Rightarrow> string" where
  "str_nat n = (if n < 10 then [digit n] else str_nat (n div 10) @ [digit (n mod 10)])"

declare str_nat.simps [simp del]

text \<open>
  Reading a decimal string back gives the number, so \<open>str_nat\<close> is injective; the
  search for a free name below terminates because of that.
\<close>

definition digit_val :: "char \<Rightarrow> nat" where
  "digit_val c = of_char c - 48"

fun nat_of_str :: "nat \<Rightarrow> string \<Rightarrow> nat" where
  "nat_of_str acc [] = acc"
| "nat_of_str acc (c # cs) = nat_of_str (10 * acc + digit_val c) cs"

lemma digit_val_digit: "d < 10 \<Longrightarrow> digit_val (digit d) = d"
proof -
  assume "d < 10"
  then have "d \<in> {0,1,2,3,4,5,6,7,8,9}" by auto
  then show ?thesis
    by (auto simp add: digit_val_def digit_def)
qed

lemma nat_of_str_append: "nat_of_str acc (xs @ [c]) = 10 * nat_of_str acc xs + digit_val c"
  by (induction xs arbitrary: acc) auto

lemma nat_of_str_str_nat: "nat_of_str 0 (str_nat n) = n"
proof (induction n rule: str_nat.induct)
  case (1 n)
  show ?case
  proof (cases "n < 10")
    case True
    then show ?thesis by (simp add: str_nat.simps [of n] digit_val_digit)
  next
    case False
    with 1 have "nat_of_str 0 (str_nat (n div 10)) = n div 10" by simp
    with False show ?thesis
      by (simp add: str_nat.simps [of n] nat_of_str_append digit_val_digit)
  qed
qed

lemma str_nat_inj: "str_nat i = str_nat j \<Longrightarrow> i = j"
  by (metis nat_of_str_str_nat)

lemma finite_suffixes: "finite {j. map_of reg (KStr (name @ str_nat j)) \<noteq> None}"
proof -
  have "inj (\<lambda>j. KStr (name @ str_nat j))"
    by (auto simp add: inj_on_def dest: str_nat_inj)
  then have "finite ((\<lambda>j. KStr (name @ str_nat j)) -` dom (map_of reg))"
    by (intro finite_vimageI) (simp_all add: finite_dom_map_of)
  moreover have "{j. map_of reg (KStr (name @ str_nat j)) \<noteq> None} =
                 (\<lambda>j. KStr (name @ str_nat j)) -` dom (map_of reg)"
    by auto
  ultimately show ?thesis by simp
qed

text \<open>
  The loop \<^verbatim>\<open>for i in count()\<close> of the rename policy (lines 535-539): the first \<open>i\<close>,
  counting up, for which \<^verbatim>\<open>name + str(i)\<close> is not a key of the registry. The registry
  is finite and the candidate names are pairwise different, so the loop ends.
\<close>

function rename_loop :: "string \<Rightarrow> (pykey \<times> tid) list \<Rightarrow> nat \<Rightarrow> nat" where
  "rename_loop name reg i =
     (let new_name = name @ str_nat i
      in if map_of reg (KStr new_name) = None then i else rename_loop name reg (Suc i))"
  by pat_completeness auto
termination
proof (relation "measure (\<lambda>(name, reg, i). card {j. i \<le> j \<and> map_of reg (KStr (name @ str_nat j)) \<noteq> None})")
  show "wf (measure (\<lambda>(name, reg, i). card {j. i \<le> j \<and> map_of reg (KStr (name @ str_nat j)) \<noteq> None}))"
    by simp
next
  fix name :: string and reg :: "(pykey \<times> tid) list" and i :: nat and new_name
  assume a: "new_name = name @ str_nat i" "map_of reg (KStr new_name) \<noteq> None"
  let ?S = "\<lambda>i. {j. i \<le> j \<and> map_of reg (KStr (name @ str_nat j)) \<noteq> None}"
  have fin: "finite (?S i)"
    by (rule finite_subset [OF _ finite_suffixes [of reg name]]) auto
  have "i \<in> ?S i" "i \<notin> ?S (Suc i)" "?S (Suc i) \<subseteq> ?S i"
    using a by auto
  then have "?S (Suc i) \<subset> ?S i"
    by blast
  then have "card (?S (Suc i)) < card (?S i)"
    using fin by (rule psubset_card_mono [rotated])
  then show "((name, reg, Suc i), (name, reg, i)) \<in> measure (\<lambda>(name, reg, i). card {j. i \<le> j \<and> map_of reg (KStr (name @ str_nat j)) \<noteq> None})"
    by simp
qed

declare rename_loop.simps [simp del]

lemma rename_loop_free: "map_of reg (KStr (name @ str_nat (rename_loop name reg i))) = None"
proof (induction name reg i rule: rename_loop.induct)
  case (1 name reg i)
  then show ?case
    by (simp add: rename_loop.simps [of name reg i] Let_def)
qed

lemma rename_loop_least:
  "i \<le> rename_loop name reg i \<and>
   (\<forall>j. i \<le> j \<and> j < rename_loop name reg i \<longrightarrow> map_of reg (KStr (name @ str_nat j)) \<noteq> None)"
proof (induction name reg i rule: rename_loop.induct)
  case (1 name reg i)
  show ?case
  proof (cases "map_of reg (KStr (name @ str_nat i)) = None")
    case True
    then show ?thesis by (auto simp add: rename_loop.simps [of name reg i])
  next
    case False
    with 1 have ih: "Suc i \<le> rename_loop name reg (Suc i)"
      "\<forall>j. Suc i \<le> j \<and> j < rename_loop name reg (Suc i) \<longrightarrow> map_of reg (KStr (name @ str_nat j)) \<noteq> None"
      by simp_all
    have eq: "rename_loop name reg i = rename_loop name reg (Suc i)"
      using False by (auto simp add: rename_loop.simps [of name reg i])
    show ?thesis
      unfolding eq using ih False
      by (metis Suc_leD Suc_leI le_neq_implies_less)
  qed
qed

text \<open>
  The first lines of the setter (514-521): a name that is \<^verbatim>\<open>None\<close> becomes \<^verbatim>\<open>id(self)\<close>,
  an integer, under instance naming, and the subclass's default name otherwise.
\<close>

definition resolve_name :: "tid \<Rightarrow> pykey option \<Rightarrow> world \<Rightarrow> pykey result" where
  "resolve_name self name w =
     (case name of
        Some k \<Rightarrow> Ok k
      | None \<Rightarrow>
          if use_instance_naming w then Ok (KInt self)
          else (case default_name (objs w self) of
                  None \<Rightarrow> Raise (NotImplementedError ''get_default_name'')
                | Some d \<Rightarrow> Ok (KStr d)))"

text \<open>\<^verbatim>\<open>str(name)\<close> of a registry key.\<close>

fun py_str :: "pykey \<Rightarrow> string" where
  "py_str (KStr s) = s"
| "py_str (KInt n) = str_nat n"

text \<open>
  The last lines of the setter (543-546): store the name, then delete the old name from
  the registry; deleting a key that is not there raises \<^verbatim>\<open>KeyError\<close>.
\<close>

definition store_name :: "tid \<Rightarrow> pykey \<Rightarrow> string option \<Rightarrow> world \<Rightarrow> unit result \<times> world" where
  "store_name self name old_name w =
     (let w1 = upd_task self (\<lambda>t. t\<lparr>p_name := Some (py_str name)\<rparr>) w
      in case old_name of
           None \<Rightarrow> (Ok (), w1)
         | Some old \<Rightarrow>
             if map_of (session_tasks w1) (KStr old) = None then (Raise (KeyError old), w1)
             else (Ok (), w1\<lparr>session_tasks := AList.delete (KStr old) (session_tasks w1)\<rparr>))"

text \<open>
  The \<^verbatim>\<open>name\<close> setter (lines 511-546). \<^verbatim>\<open>name == old_name\<close> holds only for a string
  equal to the stored one. Under the rename policy the setter assigns the first free name
  to \<^verbatim>\<open>self.name\<close>, which is a call of itself, and returns; an integer name cannot be
  concatenated with a string. The text of the \<^verbatim>\<open>KeyError\<close> of the raise policy is
  shortened. The recursive call is made with a name that is not in the registry, so it
  does not recur again.
\<close>

function name_setter :: "tid \<Rightarrow> pykey option \<Rightarrow> world \<Rightarrow> unit result \<times> world" where
  "name_setter self name w =
     (let old_name = p_name (objs w self)
      in case resolve_name self name w of
           Raise e \<Rightarrow> (Raise e, w)
         | Ok name \<Rightarrow>
             if (case old_name of None \<Rightarrow> False | Some old \<Rightarrow> name = KStr old) then (Ok (), w)
             else if map_of (session_tasks w) name \<noteq> None then
               (let on_exists = on_task_pre_exists w
                in if on_exists = ''replace'' then
                     store_name self name old_name
                       (w\<lparr>session_tasks := AList.update name self (session_tasks w)\<rparr>)
                   else if on_exists = ''raise'' then
                     (Raise (KeyError (''Task '' @ py_str name @ '' already exists.'')), w)
                   else if on_exists = ''ignore'' then store_name self name old_name w
                   else if on_exists = ''rename'' then
                     (case name of
                        KInt n \<Rightarrow> (Raise (TypeError ''unsupported operand type(s) for +''), w)
                      | KStr s \<Rightarrow>
                          name_setter self
                            (Some (KStr (s @ str_nat (rename_loop s (session_tasks w) 0)))) w)
                   else store_name self name old_name w)
             else
               store_name self name old_name
                 (w\<lparr>session_tasks := AList.update name self (session_tasks w)\<rparr>))"
  by pat_completeness auto
termination
  by (relation "measure (\<lambda>(self, name, w).
        case resolve_name self name w of
          Raise e \<Rightarrow> 0
        | Ok k \<Rightarrow> if map_of (session_tasks w) k \<noteq> None then 1 else 0)")
     (auto simp add: resolve_name_def rename_loop_free)

declare name_setter.simps [simp del]

section \<open>Assigning conditions to a task\<close>

text \<open>
  \<^verbatim>\<open>Task._validate_cond\<close> (lines 258-260): a condition is a \<^verbatim>\<open>bool\<close> or a condition
  object.
\<close>

definition validate_cond :: "cond_val \<Rightarrow> unit result" where
  "validate_cond cond =
     (case cond of
        CBool b \<Rightarrow> Ok ()
      | CRef a \<Rightarrow> Ok ()
      | CStr s \<Rightarrow> Raise (TypeError ''Condition must be bool or inherited from BaseCondition'')
      | COther \<Rightarrow> Raise (TypeError ''Condition must be bool or inherited from BaseCondition''))"

text \<open>
  The setters of \<^verbatim>\<open>start_cond\<close> and \<^verbatim>\<open>end_cond\<close> (lines 210-232). The parser of condition
  strings and \<^verbatim>\<open>set_statement_defaults\<close> are not among the sources and are parameters:
  the parser returns the parsed value and the store with the objects it built, and
  \<^verbatim>\<open>set_statement_defaults\<close> returns the store after binding the task into the tree.
  The value that passes the validation is stored as it is: for a condition object, the
  reference the caller gave.
\<close>

definition start_cond_setter ::
  "(string \<Rightarrow> store \<Rightarrow> cond_val \<times> store) \<Rightarrow> (cond_val \<Rightarrow> tid \<Rightarrow> store \<Rightarrow> store) \<Rightarrow>
   tid \<Rightarrow> cond_val \<Rightarrow> world \<Rightarrow> unit result \<times> world" where
  "start_cond_setter parse_condition set_statement_defaults self cond w =
     (case (case cond of CStr s \<Rightarrow> parse_condition s (heap w) | _ \<Rightarrow> (cond, heap w)) of
        (cond, h1) \<Rightarrow>
          (case validate_cond cond of
             Raise e \<Rightarrow> (Raise e, w\<lparr>heap := h1\<rparr>)
           | Ok u \<Rightarrow>
               (Ok (), upd_task self (\<lambda>t. t\<lparr>p_start_cond := cond\<rparr>)
                         (w\<lparr>heap := set_statement_defaults cond self h1\<rparr>))))"

definition end_cond_setter ::
  "(string \<Rightarrow> store \<Rightarrow> cond_val \<times> store) \<Rightarrow> (cond_val \<Rightarrow> tid \<Rightarrow> store \<Rightarrow> store) \<Rightarrow>
   tid \<Rightarrow> cond_val \<Rightarrow> world \<Rightarrow> unit result \<times> world" where
  "end_cond_setter parse_condition set_statement_defaults self cond w =
     (case (case cond of CStr s \<Rightarrow> parse_condition s (heap w) | _ \<Rightarrow> (cond, heap w)) of
        (cond, h1) \<Rightarrow>
          (case validate_cond cond of
             Raise e \<Rightarrow> (Raise e, w\<lparr>heap := h1\<rparr>)
           | Ok u \<Rightarrow>
               (Ok (), upd_task self (\<lambda>t. t\<lparr>p_end_cond := cond\<rparr>)
                         (w\<lparr>heap := set_statement_defaults cond self h1\<rparr>))))"

text \<open>
  \<^verbatim>\<open>copy(x)\<close> of the standard library, the shallow copy: a \<^verbatim>\<open>bool\<close> or a string is
  returned as it is; for an object a new object is made, at the address \<open>new\<close> that the
  interpreter gives it, holding the same attribute values, that is the same references to
  the children.
\<close>

definition py_copy :: "addr \<Rightarrow> cond_val \<Rightarrow> store \<Rightarrow> cond_val \<times> store" where
  "py_copy new x h =
     (case x of
        CRef a \<Rightarrow> (case h a of None \<Rightarrow> (CRef a, h) | Some obj \<Rightarrow> (CRef new, h(new \<mapsto> obj)))
      | _ \<Rightarrow> (x, h))"

text \<open>
  One of the three right-hand sides of lines 169-171: a new default object when the
  argument is \<^verbatim>\<open>None\<close>, the shallow copy of the argument otherwise.
\<close>

definition default_or_copy :: "cond_obj \<Rightarrow> addr \<Rightarrow> cond_val option \<Rightarrow> store \<Rightarrow> cond_val \<times> store" where
  "default_or_copy dflt new arg h =
     (case arg of
        None \<Rightarrow> (CRef new, h(new \<mapsto> dflt))
      | Some c \<Rightarrow> py_copy new c h)"

text \<open>
  Lines 169-171 of \<^verbatim>\<open>Task.__init__\<close>: the start and end conditions go through their
  setters, the run condition is a plain attribute. \<open>n1\<close>, \<open>n2\<close> and \<open>n3\<close> are the
  addresses of the three objects created.
\<close>

definition init_conds ::
  "(string \<Rightarrow> store \<Rightarrow> cond_val \<times> store) \<Rightarrow> (cond_val \<Rightarrow> tid \<Rightarrow> store \<Rightarrow> store) \<Rightarrow>
   tid \<Rightarrow> cond_val option \<Rightarrow> cond_val option \<Rightarrow> cond_val option \<Rightarrow>
   addr \<Rightarrow> addr \<Rightarrow> addr \<Rightarrow> world \<Rightarrow> unit result \<times> world" where
  "init_conds parse_condition set_statement_defaults self start_cond run_cond_arg end_cond
     n1 n2 n3 w =
     (case default_or_copy AlwaysFalse n1 start_cond (heap w) of
        (c1, h1) \<Rightarrow>
          (case start_cond_setter parse_condition set_statement_defaults self c1 (w\<lparr>heap := h1\<rparr>) of
             (Raise e, w1) \<Rightarrow> (Raise e, w1)
           | (Ok u1, w1) \<Rightarrow>
               (case default_or_copy AlwaysTrue n2 run_cond_arg (heap w1) of
                  (c2, h2) \<Rightarrow>
                    (let w2 = upd_task self (\<lambda>t. t\<lparr>run_cond := c2\<rparr>) (w1\<lparr>heap := h2\<rparr>)
                     in case default_or_copy AlwaysFalse n3 end_cond (heap w2) of
                          (c3, h3) \<Rightarrow>
                            end_cond_setter parse_condition set_statement_defaults self c3
                              (w2\<lparr>heap := h3\<rparr>)))))"

section \<open>Transport snapshot of a task\<close>

text \<open>
  \<^verbatim>\<open>Task.__getstate__\<close> (base.py, lines 677-695) copies the instance dictionary and
  overwrites seven entries with \<^verbatim>\<open>None\<close>. The instance dictionary is a map from attribute
  names to values; a value is \<open>'v option\<close>, with \<open>None\<close> for Python's \<^verbatim>\<open>None\<close>. The copy
  is the returned map: the task's own dictionary is not touched.
\<close>

type_synonym 'v pydict = "string \<rightharpoonup> 'v option"

definition getstate :: "'v pydict \<Rightarrow> 'v pydict" where
  "getstate d =
     (let state = d;
          state = state(''_logger'' \<mapsto> None);
          state = state(''_start_cond'' \<mapsto> None);
          state = state(''_end_cond'' \<mapsto> None);
          state = state(''_process'' \<mapsto> None);
          state = state(''_thread'' \<mapsto> None);
          state = state(''_thread_terminate'' \<mapsto> None);
          state = state(''_lock'' \<mapsto> None)
      in state)"

section \<open>A concrete session\<close>

text \<open>
  A task named \<^verbatim>\<open>t\<close> that has not run yet, with the three callbacks given, and a session
  that holds it under its name.
\<close>

definition task0 :: task where
  "task0 = \<lparr>p_name = Some ''t'', p_status = None, start_time = None,
            p_start_cond = CBool False, run_cond = CBool True, p_end_cond = CBool False,
            disabled = False,
            force_run = Some False, force_termination = False, p_thread_terminate = False,
            on_success = Some ''on_success'', on_failure = Some ''on_failure'',
            on_finish = Some ''on_finish'', exception = None, default_name = None\<rparr>"

definition world0 :: world where
  "world0 = \<lparr>objs = (\<lambda>i. task0), session_tasks = [(KStr ''t'', 0)],
             on_task_pre_exists = ''raise'', use_instance_naming = False,
             heap = Map.empty, trace = []\<rparr>"


text \<open>
  The session of the rename scenario: tasks \<^verbatim>\<open>t\<close> and \<^verbatim>\<open>t0\<close> are registered, and the
  task with identity 2 has no name yet.
\<close>

definition world_t :: world where
  "world_t = \<lparr>objs = (\<lambda>i. if i = 0 then task0
                          else if i = 1 then task0\<lparr>p_name := Some ''t0''\<rparr>
                          else task0\<lparr>p_name := None\<rparr>),
              session_tasks = [(KStr ''t'', 0), (KStr ''t0'', 1)],
              on_task_pre_exists = ''rename'', use_instance_naming = False,
              heap = Map.empty, trace = []\<rparr>"

text \<open>
  A caller's condition tree: at address 0 the negation of the object at address 1, which
  is a conjunction without children. The caller's later mutation appends a new
  \<^verbatim>\<open>AlwaysFalse\<close>, at address 2, to the children of the inner object. In this tree no
  leaf has a task to bind and no string is parsed.
\<close>

definition world_c :: world where
  "world_c = world0\<lparr>heap := [0 \<mapsto> Not_cond 1, 1 \<mapsto> All_cond []]\<rparr>"

definition caller_mutation :: "store \<Rightarrow> store" where
  "caller_mutation h = h(2 \<mapsto> AlwaysFalse, 1 \<mapsto> All_cond [2])"

definition no_parser :: "string \<Rightarrow> store \<Rightarrow> cond_val \<times> store" where
  "no_parser s h = (COther, h)"

definition no_defaults :: "cond_val \<Rightarrow> tid \<Rightarrow> store \<Rightarrow> store" where
  "no_defaults cond self h = h"

section \<open>Verified properties\<close>

subsection \<open>Projections of a trace\<close>

lemma finish_calls_append [simp]:
  "finish_calls (xs @ ys) = finish_calls xs @ finish_calls ys"
  by (induction xs rule: finish_calls.induct) auto

lemma success_calls_append [simp]:
  "success_calls (xs @ ys) = success_calls xs @ success_calls ys"
  by (induction xs rule: success_calls.induct) auto

lemma failure_calls_append [simp]:
  "failure_calls (xs @ ys) = failure_calls xs @ failure_calls ys"
  by (induction xs rule: failure_calls.induct) auto

lemma fail_messages_append [simp]:
  "fail_messages (xs @ ys) = fail_messages xs @ fail_messages ys"
  by (induction xs rule: fail_messages.induct) auto

lemmas run_defs =
  run_as_main_def run_handlers_def run_finally_def process_finish_def process_success_def
  process_failure_def log_running_def log_success_def log_failure_def log_inaction_def
  log_termination_def status_setter_def actions_def read_local_def upd_task_def emit_def

subsection \<open>Transport snapshot: excluded and travelling fields\<close>

text \<open>
  C9. The snapshot maps the logger, the start condition, the end condition, the worker
  process handle, the worker thread handle, the terminate flag and the mutex to
  \<^verbatim>\<open>None\<close>, and every other attribute name to what the task's dictionary holds for it
  (absent stays absent); in particular the parameters, the three callbacks, the name and
  the execution mode travel unchanged.
\<close>

theorem getstate_snapshot:
  "(k \<in> {''_logger'', ''_start_cond'', ''_end_cond'', ''_process'', ''_thread'',
          ''_thread_terminate'', ''_lock''} \<longrightarrow> getstate d k = Some None) \<and>
   (k \<notin> {''_logger'', ''_start_cond'', ''_end_cond'', ''_process'', ''_thread'',
          ''_thread_terminate'', ''_lock''} \<longrightarrow> getstate d k = d k) \<and>
   getstate d ''_parameters'' = d ''_parameters'' \<and>
   getstate d ''on_success'' = d ''on_success'' \<and>
   getstate d ''on_failure'' = d ''on_failure'' \<and>
   getstate d ''on_finish'' = d ''on_finish'' \<and>
   getstate d ''_name'' = d ''_name'' \<and>
   getstate d ''execution'' = d ''execution''"
  by (simp add: getstate_def)

theorem getstate_snapshot_witness:
  "getstate [''_logger'' \<mapsto> Some (1::nat), ''_name'' \<mapsto> Some 2, ''run_cond'' \<mapsto> Some 3]
     ''_logger'' = Some None \<and>
   getstate [''_logger'' \<mapsto> Some (1::nat), ''_name'' \<mapsto> Some 2, ''run_cond'' \<mapsto> Some 3]
     ''run_cond'' = Some (Some 3) \<and>
   getstate [''_logger'' \<mapsto> Some (1::nat), ''_name'' \<mapsto> Some 2, ''run_cond'' \<mapsto> Some 3]
     ''_name'' = Some (Some 2)"
  using getstate_snapshot
    [of "''_logger''" "[''_logger'' \<mapsto> Some (1::nat), ''_name'' \<mapsto> Some 2, ''run_cond'' \<mapsto> Some 3]"]
    getstate_snapshot
    [of "''run_cond''" "[''_logger'' \<mapsto> Some (1::nat), ''_name'' \<mapsto> Some 2, ''run_cond'' \<mapsto> Some 3]"]
  by simp

subsection \<open>Invalid status assignment\<close>

text \<open>
  C7. Assigning to \<^verbatim>\<open>status\<close> an action string outside run, success, fail, terminate,
  inaction, crash_release (and unset), bare or as the first component of a pair, raises a
  \<^verbatim>\<open>KeyError\<close> and leaves the whole state as it was: the cached \<^verbatim>\<open>_status\<close> of the
  task is unchanged and no record is emitted.
\<close>

theorem status_setter_invalid:
  assumes "a \<notin> {''run'', ''success'', ''fail'', ''terminate'', ''inaction'', ''crash_release''}"
  shows "status_setter self (Bare (Some a)) now w =
           (Raise (KeyError (''Invalid action: '' @ a)), w) \<and>
         status_setter self (Tuple (Some a) m) now w =
           (Raise (KeyError (''Invalid action: '' @ a)), w) \<and>
         p_status (objs (snd (status_setter self (Bare (Some a)) now w)) self) =
           p_status (objs w self) \<and>
         trace (snd (status_setter self (Bare (Some a)) now w)) = trace w"
  using assms by (simp add: status_setter_def actions_def py_str_opt_def)

theorem status_setter_invalid_witness:
  "status_setter 0 (Bare (Some ''done'')) 5 world0 =
     (Raise (KeyError ''Invalid action: done''), world0) \<and>
   status_setter 0 (Tuple (Some ''done'') ''msg'') 5 world0 =
     (Raise (KeyError ''Invalid action: done''), world0)"
  using status_setter_invalid [of "''done''" 0 5 world0 "''msg''"] by simp

subsection \<open>Action and message of a status assignment\<close>



subsection \<open>The should-run check\<close>

text \<open>
  C4. The should-run check returns true when \<^verbatim>\<open>force_run\<close> is true, whatever
  \<^verbatim>\<open>disabled\<close> and the start condition are; otherwise it returns false when \<^verbatim>\<open>disabled\<close>
  is true; otherwise it returns the boolean evaluation of the start condition.
\<close>

theorem task_bool_cases:
  "(force_run (objs w self) = Some True \<longrightarrow> task_bool fuel self w = Some True) \<and>
   (force_run (objs w self) \<noteq> Some True \<and> disabled (objs w self) \<longrightarrow>
      task_bool fuel self w = Some False) \<and>
   (force_run (objs w self) \<noteq> Some True \<and> \<not> disabled (objs w self) \<longrightarrow>
      task_bool fuel self w = cond_bool fuel (heap w) (p_start_cond (objs w self)))"
  by (simp add: task_bool_def)

theorem task_bool_cases_witness:
  "task_bool 3 0 (upd_task 0 (\<lambda>t. t\<lparr>force_run := Some True, disabled := True\<rparr>) world0) = Some True \<and>
   task_bool 3 0 (upd_task 0 (\<lambda>t. t\<lparr>disabled := True, p_start_cond := CBool True\<rparr>) world0) = Some False \<and>
   task_bool 3 0 (upd_task 0 (\<lambda>t. t\<lparr>p_start_cond := CBool True\<rparr>) world0) = Some True"
  using task_bool_cases [of "upd_task 0 (\<lambda>t. t\<lparr>force_run := Some True, disabled := True\<rparr>) world0" 0 3]
    task_bool_cases [of "upd_task 0 (\<lambda>t. t\<lparr>disabled := True, p_start_cond := CBool True\<rparr>) world0" 0 3]
    task_bool_cases [of "upd_task 0 (\<lambda>t. t\<lparr>p_start_cond := CBool True\<rparr>) world0" 0 3]
  by (simp add: upd_task_def world0_def task0_def)

subsection \<open>A scheduler restart raised by the body\<close>

text \<open>
  C1. The claim: when the body raises \<^verbatim>\<open>SchedulerRestart\<close>, the status is logged as
  success, \<^verbatim>\<open>on_success\<close> and then \<^verbatim>\<open>on_finish\<close> are invoked, and \<^verbatim>\<open>SchedulerRestart\<close>
  is re-raised. What the handler at lines 336-343 does: it logs success, then reads the
  local variable \<^verbatim>\<open>output\<close>, which the failed assignment at line 334 never bound. For
  every task and state the call therefore raises \<^verbatim>\<open>UnboundLocalError\<close>, not
  \<^verbatim>\<open>SchedulerRestart\<close>, and \<^verbatim>\<open>on_success\<close> is not invoked; the status is \<^verbatim>\<open>success\<close>.
  On the concrete task the trace is the run record, the success record and the call of
  \<^verbatim>\<open>on_finish\<close>.
\<close>

theorem run_as_main_restart_unbound:
  "fst (run_as_main self flag (Raises SchedulerRestart) t0 t1 w) =
     Raise (UnboundLocalError ''output'') \<and>
   success_calls (trace (snd (run_as_main self flag (Raises SchedulerRestart) t0 t1 w))) =
     success_calls (trace w) \<and>
   p_status (objs (snd (run_as_main self flag (Raises SchedulerRestart) t0 t1 w)) self) =
     Some ''success'' \<and>
   trace (snd (run_as_main 0 True (Raises SchedulerRestart) 1 2 world0)) =
     [Emit \<lparr>rec_level = INFO, rec_task_name = Some ''t'', rec_action = Some ''run'',
             rec_start = Some 1, rec_end = None, rec_runtime = None, rec_message = []\<rparr>,
      Emit \<lparr>rec_level = INFO, rec_task_name = Some ''t'', rec_action = Some ''success'',
             rec_start = Some 1, rec_end = Some 2, rec_runtime = Some 1, rec_message = []\<rparr>,
      CallFinish ''on_finish'' (Some ''succeeded'')]"
  by (simp add: run_defs Let_def world0_def task0_def split: option.splits)

subsection \<open>An ordinary exception raised by the body\<close>




subsection \<open>The finish step on every way out\<close>



subsection \<open>Proof of start: reading the log queue\<close>

lemma loop_done [simp]:
  "lock_to_run_log_loop self (Some ''run'') t ps w = (Some (Ok ()), w)"
  by (cases ps) simp_all






subsection \<open>Renaming a task\<close>

lemma name_setter_store:
  assumes new: "p_name (objs w self) \<noteq> Some n"
    and old: "\<forall>old. p_name (objs w self) = Some old \<longrightarrow> map_of (session_tasks w) (KStr old) \<noteq> None"
    and free: "map_of (session_tasks w) (KStr n) = None \<or> on_task_pre_exists w = ''replace''"
  shows "\<exists>w'. name_setter self (Some (KStr n)) w = (Ok (), w') \<and>
           p_name (objs w' self) = Some n \<and>
           map_of (session_tasks w') (KStr n) = Some self \<and>
           (\<forall>old. p_name (objs w self) = Some old \<longrightarrow> map_of (session_tasks w') (KStr old) = None)"
proof -
  let ?w1 = "w\<lparr>session_tasks := AList.update (KStr n) self (session_tasks w)\<rparr>"
  have eq: "name_setter self (Some (KStr n)) w = store_name self (KStr n) (p_name (objs w self)) ?w1"
    using new free
    by (auto simp add: name_setter.simps [of self "Some (KStr n)" w] resolve_name_def Let_def
          split: option.splits)
  show ?thesis
    unfolding eq using new old
    by (auto simp add: store_name_def upd_task_def Let_def update_conv' delete_conv'
          split: option.splits)
qed

lemma name_setter_rename_step:
  assumes new: "p_name (objs w self) \<noteq> Some n"
    and taken: "map_of (session_tasks w) (KStr n) \<noteq> None"
    and pol: "on_task_pre_exists w = ''rename''"
  shows "name_setter self (Some (KStr n)) w =
         name_setter self (Some (KStr (n @ str_nat (rename_loop n (session_tasks w) 0)))) w"
  using assms
  by (auto simp add: name_setter.simps [of self "Some (KStr n)" w] resolve_name_def Let_def
        split: option.splits)

text \<open>
  C8, as stated, fails under the ignore policy. Tasks \<^verbatim>\<open>t\<close> (identity 0) and \<^verbatim>\<open>t0\<close>
  (identity 1) are registered; assigning the name \<^verbatim>\<open>t\<close> to the second task returns
  normally, the task's own name is then \<^verbatim>\<open>t\<close>, but the registry maps \<^verbatim>\<open>t\<close> to the first
  task and holds no entry for the second.
\<close>

theorem name_setter_ignore_counterexample:
  "fst (name_setter 1 (Some (KStr ''t'')) (world_t\<lparr>on_task_pre_exists := ''ignore''\<rparr>)) = Ok () \<and>
   p_name (objs (snd (name_setter 1 (Some (KStr ''t''))
                        (world_t\<lparr>on_task_pre_exists := ''ignore''\<rparr>))) 1) = Some ''t'' \<and>
   session_tasks (snd (name_setter 1 (Some (KStr ''t''))
                        (world_t\<lparr>on_task_pre_exists := ''ignore''\<rparr>))) = [(KStr ''t'', 0)] \<and>
   map_of (session_tasks (snd (name_setter 1 (Some (KStr ''t''))
                        (world_t\<lparr>on_task_pre_exists := ''ignore''\<rparr>)))) (KStr ''t'') \<noteq> Some 1"
  by code_simp

lemma name_setter_ignore:
  assumes new: "p_name (objs w self) \<noteq> Some n"
    and taken: "map_of (session_tasks w) (KStr n) \<noteq> None"
    and pol: "on_task_pre_exists w = ''ignore''"
  shows "p_name (objs (snd (name_setter self (Some (KStr n)) w)) self) = Some n \<and>
         map_of (session_tasks (snd (name_setter self (Some (KStr n)) w))) (KStr n) =
           map_of (session_tasks w) (KStr n) \<and>
         ((\<forall>old. p_name (objs w self) = Some old \<longrightarrow>
                 map_of (session_tasks w) (KStr old) \<noteq> None) \<longrightarrow>
          fst (name_setter self (Some (KStr n)) w) = Ok () \<and>
          (\<forall>old. p_name (objs w self) = Some old \<longrightarrow>
             map_of (session_tasks (snd (name_setter self (Some (KStr n)) w))) (KStr old) = None))"
proof -
  have eq: "name_setter self (Some (KStr n)) w =
            store_name self (KStr n) (p_name (objs w self)) w"
    using assms
    by (auto simp add: name_setter.simps [of self "Some (KStr n)" w] resolve_name_def Let_def
          split: option.splits)
  show ?thesis
    unfolding eq using new
    by (auto simp add: store_name_def upd_task_def Let_def delete_conv' split: option.splits)
qed

text \<open>
  C8, amended. For every task and every string assigned through the name setter: if the
  new name equals the current name the setter is a no-op. Otherwise, when the task's
  current name (if it has one) is in the registry, and the new name is free or the
  collision policy is replace or rename, the assignment returns and afterwards the
  registry maps the task's final name to the task, no longer contains the old name, and
  the task's own name equals the final name. The final name is the given name when that is
  free or the policy is replace; under the rename policy with the name taken it is the
  given name followed by the smallest integer, counting from 0, that makes it free.
  Under the ignore policy with the name taken, the task's own name becomes the given name
  and the registry keeps what it held under that name, the existing task; when the task's
  current name (if it has one) is in the registry, the assignment returns and the old name
  is no longer in the registry.
\<close>

theorem name_setter_registry:
  "(p_name (objs w self) = Some n \<longrightarrow> name_setter self (Some (KStr n)) w = (Ok (), w)) \<and>
   (p_name (objs w self) \<noteq> Some n \<and>
    (\<forall>old. p_name (objs w self) = Some old \<longrightarrow> map_of (session_tasks w) (KStr old) \<noteq> None) \<and>
    (map_of (session_tasks w) (KStr n) = None \<or> on_task_pre_exists w = ''replace'' \<or>
     on_task_pre_exists w = ''rename'') \<longrightarrow>
    (\<exists>w' final. name_setter self (Some (KStr n)) w = (Ok (), w') \<and>
       p_name (objs w' self) = Some final \<and>
       map_of (session_tasks w') (KStr final) = Some self \<and>
       (\<forall>old. p_name (objs w self) = Some old \<longrightarrow> map_of (session_tasks w') (KStr old) = None) \<and>
       (if map_of (session_tasks w) (KStr n) = None \<or> on_task_pre_exists w = ''replace''
        then final = n
        else \<exists>i. final = n @ str_nat i \<and>
                 map_of (session_tasks w) (KStr (n @ str_nat i)) = None \<and>
                 (\<forall>j<i. map_of (session_tasks w) (KStr (n @ str_nat j)) \<noteq> None)))) \<and>
   (p_name (objs w self) \<noteq> Some n \<and> map_of (session_tasks w) (KStr n) \<noteq> None \<and>
    on_task_pre_exists w = ''ignore'' \<longrightarrow>
    p_name (objs (snd (name_setter self (Some (KStr n)) w)) self) = Some n \<and>
    map_of (session_tasks (snd (name_setter self (Some (KStr n)) w))) (KStr n) =
      map_of (session_tasks w) (KStr n) \<and>
    ((\<forall>old. p_name (objs w self) = Some old \<longrightarrow>
            map_of (session_tasks w) (KStr old) \<noteq> None) \<longrightarrow>
     fst (name_setter self (Some (KStr n)) w) = Ok () \<and>
     (\<forall>old. p_name (objs w self) = Some old \<longrightarrow>
        map_of (session_tasks (snd (name_setter self (Some (KStr n)) w))) (KStr old) = None)))"
proof (intro conjI)
  show "p_name (objs w self) \<noteq> Some n \<and> map_of (session_tasks w) (KStr n) \<noteq> None \<and>
    on_task_pre_exists w = ''ignore'' \<longrightarrow>
    p_name (objs (snd (name_setter self (Some (KStr n)) w)) self) = Some n \<and>
    map_of (session_tasks (snd (name_setter self (Some (KStr n)) w))) (KStr n) =
      map_of (session_tasks w) (KStr n) \<and>
    ((\<forall>old. p_name (objs w self) = Some old \<longrightarrow>
            map_of (session_tasks w) (KStr old) \<noteq> None) \<longrightarrow>
     fst (name_setter self (Some (KStr n)) w) = Ok () \<and>
     (\<forall>old. p_name (objs w self) = Some old \<longrightarrow>
        map_of (session_tasks (snd (name_setter self (Some (KStr n)) w))) (KStr old) = None))"
    using name_setter_ignore [of w self n] by blast
next
  show "p_name (objs w self) = Some n \<longrightarrow> name_setter self (Some (KStr n)) w = (Ok (), w)"
    by (simp add: name_setter.simps [of self "Some (KStr n)" w] resolve_name_def)
next
  show "p_name (objs w self) \<noteq> Some n \<and>
    (\<forall>old. p_name (objs w self) = Some old \<longrightarrow> map_of (session_tasks w) (KStr old) \<noteq> None) \<and>
    (map_of (session_tasks w) (KStr n) = None \<or> on_task_pre_exists w = ''replace'' \<or>
     on_task_pre_exists w = ''rename'') \<longrightarrow>
    (\<exists>w' final. name_setter self (Some (KStr n)) w = (Ok (), w') \<and>
       p_name (objs w' self) = Some final \<and>
       map_of (session_tasks w') (KStr final) = Some self \<and>
       (\<forall>old. p_name (objs w self) = Some old \<longrightarrow> map_of (session_tasks w') (KStr old) = None) \<and>
       (if map_of (session_tasks w) (KStr n) = None \<or> on_task_pre_exists w = ''replace''
        then final = n
        else \<exists>i. final = n @ str_nat i \<and>
                 map_of (session_tasks w) (KStr (n @ str_nat i)) = None \<and>
                 (\<forall>j<i. map_of (session_tasks w) (KStr (n @ str_nat j)) \<noteq> None)))"
  proof (intro impI)
  assume a: "p_name (objs w self) \<noteq> Some n \<and>
    (\<forall>old. p_name (objs w self) = Some old \<longrightarrow> map_of (session_tasks w) (KStr old) \<noteq> None) \<and>
    (map_of (session_tasks w) (KStr n) = None \<or> on_task_pre_exists w = ''replace'' \<or>
     on_task_pre_exists w = ''rename'')"
  then have new: "p_name (objs w self) \<noteq> Some n"
    and old: "\<forall>old. p_name (objs w self) = Some old \<longrightarrow> map_of (session_tasks w) (KStr old) \<noteq> None"
    by simp_all
  show "\<exists>w' final. name_setter self (Some (KStr n)) w = (Ok (), w') \<and>
       p_name (objs w' self) = Some final \<and>
       map_of (session_tasks w') (KStr final) = Some self \<and>
       (\<forall>old. p_name (objs w self) = Some old \<longrightarrow> map_of (session_tasks w') (KStr old) = None) \<and>
       (if map_of (session_tasks w) (KStr n) = None \<or> on_task_pre_exists w = ''replace''
        then final = n
        else \<exists>i. final = n @ str_nat i \<and>
                 map_of (session_tasks w) (KStr (n @ str_nat i)) = None \<and>
                 (\<forall>j<i. map_of (session_tasks w) (KStr (n @ str_nat j)) \<noteq> None))"
  proof (cases "map_of (session_tasks w) (KStr n) = None \<or> on_task_pre_exists w = ''replace''")
    case True
    from name_setter_store [OF new old True] True show ?thesis
      by auto
  next
    case False
    with a have taken: "map_of (session_tasks w) (KStr n) \<noteq> None"
      and pol: "on_task_pre_exists w = ''rename''"
      by auto
    let ?i = "rename_loop n (session_tasks w) 0"
    let ?n = "n @ str_nat ?i"
    have free: "map_of (session_tasks w) (KStr ?n) = None"
      by (rule rename_loop_free)
    have least: "\<forall>j<?i. map_of (session_tasks w) (KStr (n @ str_nat j)) \<noteq> None"
      using rename_loop_least [of 0 n "session_tasks w"] by simp
    have new': "p_name (objs w self) \<noteq> Some ?n"
      using old free by auto
    from name_setter_store [OF new' old disjI1 [OF free]]
    obtain w' where w': "name_setter self (Some (KStr ?n)) w = (Ok (), w')"
      "p_name (objs w' self) = Some ?n" "map_of (session_tasks w') (KStr ?n) = Some self"
      "\<forall>old. p_name (objs w self) = Some old \<longrightarrow> map_of (session_tasks w') (KStr old) = None"
      by blast
    have "name_setter self (Some (KStr n)) w = (Ok (), w')"
      using name_setter_rename_step [OF new taken pol] w'(1) by simp
    then show ?thesis
      using w'(2,3,4) False free least by auto
  qed
  qed
qed

theorem name_setter_registry_witness:
  "(\<exists>w' final. name_setter 2 (Some (KStr ''t'')) world_t = (Ok (), w') \<and>
      p_name (objs w' 2) = Some final \<and>
      map_of (session_tasks w') (KStr final) = Some 2 \<and>
      (\<exists>i. final = ''t'' @ str_nat i \<and>
           map_of (session_tasks world_t) (KStr (''t'' @ str_nat i)) = None \<and>
           (\<forall>j<i. map_of (session_tasks world_t) (KStr (''t'' @ str_nat j)) \<noteq> None))) \<and>
   p_name (objs (snd (name_setter 2 (Some (KStr ''t'')) world_t)) 2) = Some ''t1'' \<and>
   session_tasks (snd (name_setter 2 (Some (KStr ''t'')) world_t)) =
     [(KStr ''t'', 0), (KStr ''t0'', 1), (KStr ''t1'', 2)] \<and>
   name_setter 0 (Some (KStr ''t'')) world_t = (Ok (), world_t) \<and>
   fst (name_setter 1 (Some (KStr ''t'')) (world_t\<lparr>on_task_pre_exists := ''ignore''\<rparr>)) = Ok () \<and>
   p_name (objs (snd (name_setter 1 (Some (KStr ''t''))
                        (world_t\<lparr>on_task_pre_exists := ''ignore''\<rparr>))) 1) = Some ''t'' \<and>
   map_of (session_tasks (snd (name_setter 1 (Some (KStr ''t''))
                                 (world_t\<lparr>on_task_pre_exists := ''ignore''\<rparr>)))) (KStr ''t'') =
     Some 0 \<and>
   map_of (session_tasks (snd (name_setter 1 (Some (KStr ''t''))
                                 (world_t\<lparr>on_task_pre_exists := ''ignore''\<rparr>)))) (KStr ''t0'') =
     None"
proof -
  have same: "name_setter 0 (Some (KStr ''t'')) world_t = (Ok (), world_t)"
    using name_setter_registry [of world_t 0 "''t''"]
    by (simp add: world_t_def task0_def)
  have ign: "fst (name_setter 1 (Some (KStr ''t'')) (world_t\<lparr>on_task_pre_exists := ''ignore''\<rparr>)) = Ok () \<and>
     p_name (objs (snd (name_setter 1 (Some (KStr ''t''))
                          (world_t\<lparr>on_task_pre_exists := ''ignore''\<rparr>))) 1) = Some ''t'' \<and>
     map_of (session_tasks (snd (name_setter 1 (Some (KStr ''t''))
                                   (world_t\<lparr>on_task_pre_exists := ''ignore''\<rparr>)))) (KStr ''t'') =
       Some 0 \<and>
     map_of (session_tasks (snd (name_setter 1 (Some (KStr ''t''))
                                   (world_t\<lparr>on_task_pre_exists := ''ignore''\<rparr>)))) (KStr ''t0'') =
       None"
    using name_setter_registry [of "world_t\<lparr>on_task_pre_exists := ''ignore''\<rparr>" 1 "''t''"]
    by (simp add: world_t_def)
  have new: "p_name (objs world_t 2) \<noteq> Some ''t''"
    by (simp add: world_t_def)
  have old: "\<forall>old. p_name (objs world_t 2) = Some old \<longrightarrow>
               map_of (session_tasks world_t) (KStr old) \<noteq> None"
    by (simp add: world_t_def)
  have pol: "on_task_pre_exists world_t = ''rename''"
    by (simp add: world_t_def)
  have taken: "map_of (session_tasks world_t) (KStr ''t'') \<noteq> None"
    by (simp add: world_t_def)
  have run: "p_name (objs (snd (name_setter 2 (Some (KStr ''t'')) world_t)) 2) = Some ''t1'' \<and>
             session_tasks (snd (name_setter 2 (Some (KStr ''t'')) world_t)) =
               [(KStr ''t'', 0), (KStr ''t0'', 1), (KStr ''t1'', 2)]"
    by code_simp
  from name_setter_registry [of world_t 2 "''t''"] new old pol taken
  have "\<exists>w' final. name_setter 2 (Some (KStr ''t'')) world_t = (Ok (), w') \<and>
      p_name (objs w' 2) = Some final \<and>
      map_of (session_tasks w') (KStr final) = Some 2 \<and>
      (\<exists>i. final = ''t'' @ str_nat i \<and>
           map_of (session_tasks world_t) (KStr (''t'' @ str_nat i)) = None \<and>
           (\<forall>j<i. map_of (session_tasks world_t) (KStr (''t'' @ str_nat j)) \<noteq> None))"
    by auto
  with run same ign show ?thesis
    by blast
qed

subsection \<open>Conditions assigned to a task and the caller's tree\<close>

text \<open>
  C2. The claim: after a condition tree is assigned to a task, mutating the caller's tree
  does not change what the task's condition evaluates to. What the code does on the
  caller's tree \<^verbatim>\<open>Not(All())\<close>: the setter stores the caller's reference itself, so the
  task's start condition is the caller's object; it evaluates to false, and to true once
  the caller has appended \<^verbatim>\<open>AlwaysFalse\<close> to the inner object. The constructor stores a
  shallow copy, a new root (addresses 10 and 12) that refers to the caller's inner object,
  so the start and end conditions of the constructed task change in the same way.
\<close>

theorem cond_assignment_shares_caller_tree:
  "fst (start_cond_setter no_parser no_defaults 0 (CRef 0) world_c) = Ok () \<and>
   p_start_cond (objs (snd (start_cond_setter no_parser no_defaults 0 (CRef 0) world_c)) 0) =
     CRef 0 \<and>
   cond_bool 5 (heap (snd (start_cond_setter no_parser no_defaults 0 (CRef 0) world_c)))
     (p_start_cond (objs (snd (start_cond_setter no_parser no_defaults 0 (CRef 0) world_c)) 0)) =
     Some False \<and>
   cond_bool 5
     (caller_mutation (heap (snd (start_cond_setter no_parser no_defaults 0 (CRef 0) world_c))))
     (p_start_cond (objs (snd (start_cond_setter no_parser no_defaults 0 (CRef 0) world_c)) 0)) =
     Some True \<and>
   fst (init_conds no_parser no_defaults 0 (Some (CRef 0)) None (Some (CRef 0)) 10 11 12 world_c) =
     Ok () \<and>
   p_start_cond (objs (snd (init_conds no_parser no_defaults 0 (Some (CRef 0)) None
                              (Some (CRef 0)) 10 11 12 world_c)) 0) = CRef 10 \<and>
   p_end_cond (objs (snd (init_conds no_parser no_defaults 0 (Some (CRef 0)) None
                            (Some (CRef 0)) 10 11 12 world_c)) 0) = CRef 12 \<and>
   cond_bool 5 (heap (snd (init_conds no_parser no_defaults 0 (Some (CRef 0)) None
                             (Some (CRef 0)) 10 11 12 world_c))) (CRef 10) = Some False \<and>
   cond_bool 5 (caller_mutation (heap (snd (init_conds no_parser no_defaults 0 (Some (CRef 0))
                                             None (Some (CRef 0)) 10 11 12 world_c))))
     (CRef 10) = Some True \<and>
   cond_bool 5 (heap (snd (init_conds no_parser no_defaults 0 (Some (CRef 0)) None
                             (Some (CRef 0)) 10 11 12 world_c))) (CRef 12) = Some False \<and>
   cond_bool 5 (caller_mutation (heap (snd (init_conds no_parser no_defaults 0 (Some (CRef 0))
                                             None (Some (CRef 0)) 10 11 12 world_c))))
     (CRef 12) = Some True"
  by code_simp

end
